theory Spec2Isabelle
  imports Complex_Main
begin

section \<open>Time and hour categorisation\<close>

text \<open>
  \<open>get_time_period\<close> is the local function of
  \<open>PowerBIDataPreparation.create_hour_dimension\<close> (power_bi_data_preparation.py);
  \<open>categorize_time_period\<close> is its twin in
  \<open>RapidoBusinessIntelligence.load_and_prepare_data\<close> (comprehensive_bi_analysis.py).
  Python's chained comparison \<open>a <= hour < b\<close> is the conjunction. Neither function has a
  \<open>raise\<close>: the last branch is a bare \<open>else\<close>, so the result type is a plain string.
\<close>

definition get_time_period :: "int \<Rightarrow> string" where
  "get_time_period hour =
     (if 0 \<le> hour \<and> hour < 6 then ''Late Night''
      else if 6 \<le> hour \<and> hour < 8 then ''Early Morning''
      else if 8 \<le> hour \<and> hour < 10 then ''Morning Rush''
      else if 10 \<le> hour \<and> hour < 12 then ''Late Morning''
      else if 12 \<le> hour \<and> hour < 14 then ''Lunch Time''
      else if 14 \<le> hour \<and> hour < 17 then ''Afternoon''
      else if 17 \<le> hour \<and> hour < 19 then ''Evening Rush''
      else if 19 \<le> hour \<and> hour < 22 then ''Evening''
      else ''Night'')"

definition categorize_time_period :: "int \<Rightarrow> string" where
  "categorize_time_period hour =
     (if 0 \<le> hour \<and> hour < 6 then ''Late Night''
      else if 6 \<le> hour \<and> hour < 8 then ''Early Morning''
      else if 8 \<le> hour \<and> hour < 10 then ''Morning Rush''
      else if 10 \<le> hour \<and> hour < 12 then ''Late Morning''
      else if 12 \<le> hour \<and> hour < 14 then ''Lunch Time''
      else if 14 \<le> hour \<and> hour < 17 then ''Afternoon''
      else if 17 \<le> hour \<and> hour < 19 then ''Evening Rush''
      else if 19 \<le> hour \<and> hour < 22 then ''Evening''
      else ''Night'')"

text \<open>
  The conditional expression of quick_analysis.py that fills the \<open>time_period\<close> column of
  its \<open>hour_dim\<close>: only upper bounds are tested.
\<close>

definition quick_time_period :: "int \<Rightarrow> string" where
  "quick_time_period h =
     (if h < 6 then ''Late Night''
      else if h < 8 then ''Early Morning''
      else if h < 10 then ''Morning Rush''
      else if h < 12 then ''Late Morning''
      else if h < 14 then ''Lunch Time''
      else if h < 17 then ''Afternoon''
      else if h < 19 then ''Evening Rush''
      else if h < 22 then ''Evening''
      else ''Night'')"

text \<open>
  The bin table as the specification words it: nine half-open intervals \<open>[lo, hi)\<close>, each
  with its label. \<open>spec_time_period\<close> looks an hour up in a table of such bins,
  \<open>bins_hit\<close> counts the bins an hour falls into and \<open>contiguous a b\<close> says that the bins
  tile \<open>[a, b)\<close> in order, without gap or overlap.
\<close>

type_synonym bin = "int \<times> int \<times> string"

definition time_period_bins :: "bin list" where
  "time_period_bins =
     [(0, 6, ''Late Night''), (6, 8, ''Early Morning''), (8, 10, ''Morning Rush''),
      (10, 12, ''Late Morning''), (12, 14, ''Lunch Time''), (14, 17, ''Afternoon''),
      (17, 19, ''Evening Rush''), (19, 22, ''Evening''), (22, 24, ''Night'')]"

fun in_bin :: "int \<Rightarrow> bin \<Rightarrow> bool" where
  "in_bin h (lo, hi, l) = (lo \<le> h \<and> h < hi)"

fun spec_time_period :: "bin list \<Rightarrow> int \<Rightarrow> string option" where
  "spec_time_period [] h = None"
| "spec_time_period (b # bs) h =
     (if in_bin h b then Some (snd (snd b)) else spec_time_period bs h)"

definition bins_hit :: "bin list \<Rightarrow> int \<Rightarrow> nat" where
  "bins_hit bs h = length (filter (in_bin h) bs)"

fun contiguous :: "int \<Rightarrow> int \<Rightarrow> bin list \<Rightarrow> bool" where
  "contiguous a b [] = (a = b)"
| "contiguous a b ((lo, hi, l) # bs) = (lo = a \<and> lo < hi \<and> contiguous hi b bs)"

subsection \<open>The hour dimension\<close>

text \<open>
  \<open>pd.cut(x, bins, labels)\<close> with pandas' default \<open>right=True\<close>: the i-th label belongs to
  the interval \<open>(bins[i], bins[i+1]]\<close>, open on the left and closed on the right; a value
  in no interval becomes NaN, here \<open>None\<close>.
\<close>

fun pd_cut :: "int list \<Rightarrow> string list \<Rightarrow> int \<Rightarrow> string option" where
  "pd_cut (a # b # bs) (l # ls) x =
     (if a < x \<and> x \<le> b then Some l else pd_cut (b # bs) ls x)"
| "pd_cut bs ls x = None"

text \<open>\<open>Series.between(lo, hi)\<close> is inclusive on both sides; \<open>Series.isin\<close> is membership.\<close>

definition between :: "int \<Rightarrow> int \<Rightarrow> int \<Rightarrow> bool" where
  "between lo hi x = (lo \<le> x \<and> x \<le> hi)"

definition isin :: "'a list \<Rightarrow> 'a \<Rightarrow> bool" where
  "isin vs x = (x \<in> set vs)"

record hour_row =
  h_hour :: int
  h_time_period :: string
  h_is_business_hour :: bool
  h_is_rush_hour :: bool
  h_is_peak_demand :: bool
  h_hour_category :: "string option"

text \<open>\<open>list(range(24))\<close>.\<close>

definition hours :: "int list" where
  "hours = map int [0 ..< 24]"

definition hour_dim_row :: "int \<Rightarrow> hour_row" where
  "hour_dim_row h =
     \<lparr> h_hour = h,
       h_time_period = get_time_period h,
       h_is_business_hour = between 9 18 h,
       h_is_rush_hour = isin [8, 9, 17, 18] h,
       h_is_peak_demand = isin [8, 9, 17, 18, 19] h,
       h_hour_category =
         pd_cut [-1, 6, 12, 18, 24] [''Night'', ''Morning'', ''Afternoon'', ''Evening''] h \<rparr>"

text \<open>
  \<open>PowerBIDataPreparation.create_hour_dimension\<close>: it reads nothing of the loaded data,
  so the model takes no argument.
\<close>

definition create_hour_dimension :: "hour_row list" where
  "create_hour_dimension = map hour_dim_row hours"

text \<open>The \<open>hour_dim\<close> frame of quick_analysis.py: hour, time period, rush-hour flag.\<close>

definition quick_hour_dim :: "(int \<times> string \<times> bool) list" where
  "quick_hour_dim = map (\<lambda>h. (h, quick_time_period h, isin [8, 9, 17, 18] h)) hours"

section \<open>Ride records and pandas primitives\<close>

text \<open>
  One row of the source table, with the columns the modelled code reads. \<open>date\<close> is a
  calendar date as a day number (days since 1970-01-01). The numeric columns hold finite,
  non-missing values; they are idealised as exact reals, so the rounding error of binary
  floating point is not part of the model. What division produces beyond the finite
  values is: \<open>pdfloat\<close> adds the IEEE values \<open>inf\<close>, \<open>-inf\<close> and \<open>nan\<close> that numpy returns
  (it warns, it does not raise) where Python's own \<open>/\<close> would raise.
\<close>

record ride =
  ride_id :: string
  date :: int
  hour :: int
  month :: int
  quarter :: int
  day_of_week :: int
  is_weekend :: bool
  vehicle_type :: string
  weather_condition :: string
  weather_main :: string
  weather_description :: string
  distance_km :: real
  base_price :: real
  final_price :: real
  surge_multiplier :: real
  waiting_time_minutes :: real

datatype pdfloat = Finite real | PosInf | NegInf | NaN

datatype py_error = KeyError | ValueError

text \<open>Float division as numpy does it: a zero divisor gives \<open>inf\<close>, \<open>-inf\<close> or \<open>nan\<close>.\<close>

fun fdiv :: "pdfloat \<Rightarrow> pdfloat \<Rightarrow> pdfloat" where
  "fdiv (Finite a) (Finite b) =
     (if b = 0 then (if 0 < a then PosInf else if a < 0 then NegInf else NaN)
      else Finite (a / b))"
| "fdiv (Finite a) PosInf = Finite 0"
| "fdiv (Finite a) NegInf = Finite 0"
| "fdiv PosInf (Finite b) = (if b < 0 then NegInf else PosInf)"
| "fdiv NegInf (Finite b) = (if b < 0 then PosInf else NegInf)"
| "fdiv x y = NaN"





text \<open>
  \<open>Series.sum()\<close> accumulates from 0; \<open>Series.mean()\<close> of an empty series is \<open>nan\<close>;
  \<open>Series.min()\<close> and \<open>Series.max()\<close> of an empty date column are \<open>NaT\<close>, here \<open>None\<close>.
\<close>

definition series_sum :: "real list \<Rightarrow> real" where
  "series_sum xs = foldl (+) 0 xs"

definition series_mean :: "real list \<Rightarrow> pdfloat" where
  "series_mean xs = (if xs = [] then NaN else Finite (series_sum xs / real (length xs)))"

fun series_min :: "int list \<Rightarrow> int option" where
  "series_min [] = None"
| "series_min (x # xs) = Some (foldl min x xs)"

fun series_max :: "int list \<Rightarrow> int option" where
  "series_max [] = None"
| "series_max (x # xs) = Some (foldl max x xs)"

text \<open>
  \<open>DataFrame.drop_duplicates()\<close> keeps the first occurrence of every distinct row, in
  order, together with the index label the row had in the source frame (the row number,
  since \<open>read_csv\<close> gives a range index).
\<close>

fun drop_duplicates_from :: "'a list \<Rightarrow> nat \<Rightarrow> 'a list \<Rightarrow> (nat \<times> 'a) list" where
  "drop_duplicates_from seen i [] = []"
| "drop_duplicates_from seen i (x # xs) =
     (if x \<in> set seen then drop_duplicates_from seen (Suc i) xs
      else (i, x) # drop_duplicates_from (x # seen) (Suc i) xs)"

definition drop_duplicates :: "'a list \<Rightarrow> (nat \<times> 'a) list" where
  "drop_duplicates xs = drop_duplicates_from [] 0 xs"

section \<open>The weather dimension\<close>

definition categorize_weather_impact :: "string \<Rightarrow> string" where
  "categorize_weather_impact condition =
     (if isin [''Rain'', ''Thunderstorm''] condition then ''High Impact''
      else if isin [''Clouds'', ''Haze''] condition then ''Medium Impact''
      else if isin [''Clear''] condition then ''Low Impact''
      else ''Unknown'')"

text \<open>\<open>dict.get(key, default)\<close> on a literal dictionary, kept as an association list.\<close>

definition dict_get :: "('k \<times> 'v) list \<Rightarrow> 'k \<Rightarrow> 'v \<Rightarrow> 'v" where
  "dict_get d k dflt = (case map_of d k of None \<Rightarrow> dflt | Some v \<Rightarrow> v)"

definition severity_map :: "(string \<times> int) list" where
  "severity_map =
     [(''Clear'', 1), (''Clouds'', 2), (''Haze'', 3), (''Rain'', 4), (''Thunderstorm'', 5)]"

definition get_weather_severity :: "string \<Rightarrow> int" where
  "get_weather_severity condition = dict_get severity_map condition 0"

definition surge_map :: "(string \<times> real) list" where
  "surge_map =
     [(''Clear'', 11 / 10), (''Clouds'', 13 / 10), (''Haze'', 14 / 10), (''Rain'', 18 / 10),
      (''Thunderstorm'', 22 / 10)]"

definition get_expected_surge :: "string \<Rightarrow> real" where
  "get_expected_surge condition = dict_get surge_map condition 1"

record weather_row =
  w_weather_condition :: string
  w_weather_main :: string
  w_weather_description :: string
  w_weather_id :: nat
  w_impact_category :: string
  w_severity_score :: int
  w_expected_surge_multiplier :: real

definition weather_combinations :: "ride list \<Rightarrow> (nat \<times> string \<times> string \<times> string) list" where
  "weather_combinations df =
     drop_duplicates (map (\<lambda>r. (weather_condition r, weather_main r, weather_description r)) df)"

fun weather_dim_row :: "nat \<times> string \<times> string \<times> string \<Rightarrow> weather_row" where
  "weather_dim_row (idx, c, m, d) =
     \<lparr> w_weather_condition = c,
       w_weather_main = m,
       w_weather_description = d,
       w_weather_id = idx + 1,
       w_impact_category = categorize_weather_impact c,
       w_severity_score = get_weather_severity c,
       w_expected_surge_multiplier = get_expected_surge c \<rparr>"

text \<open>\<open>PowerBIDataPreparation.create_weather_dimension\<close>.\<close>

definition create_weather_dimension :: "ride list \<Rightarrow> weather_row list" where
  "create_weather_dimension df = map weather_dim_row (weather_combinations df)"

text \<open>
  The \<open>weather_dim\<close> frame of quick_analysis.py: the same de-duplicated triples, with
  \<open>Series.map\<close> over a literal dictionary for the impact level (a key that is absent maps
  to NaN, here \<open>None\<close>).
\<close>

definition impact_level_map :: "(string \<times> string) list" where
  "impact_level_map =
     [(''Clear'', ''Low''), (''Clouds'', ''Medium''), (''Haze'', ''Medium''), (''Rain'', ''High''),
      (''Thunderstorm'', ''Very High'')]"

definition quick_weather_dim :: "ride list \<Rightarrow> (string \<times> string \<times> string \<times> string option) list" where
  "quick_weather_dim df =
     map (\<lambda>(idx, c, m, d). (c, m, d, map_of impact_level_map c)) (weather_combinations df)"

section \<open>The fact table\<close>








section \<open>The time dimension\<close>

text \<open>\<open>get_season\<close>, the local function of \<open>create_time_dimension\<close>.\<close>

definition get_season :: "int \<Rightarrow> string" where
  "get_season m =
     (if isin [12, 1, 2] m then ''Winter''
      else if isin [3, 4, 5] m then ''Spring''
      else if isin [6, 7, 8] m then ''Summer''
      else ''Autumn'')"

record time_row =
  t_date :: int
  t_month :: int
  t_day_of_week :: int
  t_is_weekend :: bool
  t_season :: string

text \<open>
  \<open>pd.date_range(start, end, freq='D')\<close> on day numbers. The calendar accessors of
  pandas are library code: the month of a date is the parameter \<open>month_of\<close>; the weekday
  (Monday is 0) follows from the day number, day 0 being a Thursday.
\<close>

definition date_range :: "int \<Rightarrow> int \<Rightarrow> int list" where
  "date_range start_date end_date = [start_date .. end_date]"

definition dayofweek :: "int \<Rightarrow> int" where
  "dayofweek d = (d + 3) mod 7"

definition time_dim_row :: "(int \<Rightarrow> int) \<Rightarrow> int \<Rightarrow> time_row" where
  "time_dim_row month_of d =
     \<lparr> t_date = d,
       t_month = month_of d,
       t_day_of_week = dayofweek d,
       t_is_weekend = isin [5, 6] (dayofweek d),
       t_season = get_season (month_of d) \<rparr>"

text \<open>
  \<open>PowerBIDataPreparation.create_time_dimension\<close>: with no rows the minimum and maximum
  are \<open>NaT\<close> and \<open>pd.date_range\<close> raises \<open>ValueError\<close>.
\<close>

definition create_time_dimension :: "(int \<Rightarrow> int) \<Rightarrow> ride list \<Rightarrow> py_error + time_row list" where
  "create_time_dimension month_of df =
     (case (series_min (map date df), series_max (map date df)) of
        (Some lo, Some hi) \<Rightarrow> Inr (map (time_dim_row month_of) (date_range lo hi))
      | _ \<Rightarrow> Inl ValueError)"

text \<open>
  The \<open>time_dim\<close> frame of quick_analysis.py: the de-duplicated calendar columns of the
  rides themselves.
\<close>

definition quick_time_dim :: "ride list \<Rightarrow> (int \<times> int \<times> int \<times> int \<times> bool) list" where
  "quick_time_dim df =
     map snd (drop_duplicates
       (map (\<lambda>r. (date r, month r, quarter r, day_of_week r, is_weekend r)) df))"

section \<open>The KPI aggregator\<close>











text \<open>
  \<open>rain_vs_clear_multiplier\<close>: the conditional expression guards the division by the
  number of clear-weather rows; its other branch is the integer 0.
\<close>

definition rain_vs_clear_multiplier :: "ride list \<Rightarrow> pdfloat" where
  "rain_vs_clear_multiplier df =
     (let rain_rides = filter (\<lambda>r. weather_condition r = ''Rain'') df;
          clear_rides = filter (\<lambda>r. weather_condition r = ''Clear'') df
      in if 0 < length clear_rides
         then fdiv (series_mean (map surge_multiplier rain_rides))
                   (series_mean (map surge_multiplier clear_rides))
         else Finite 0)"

section \<open>Example rides\<close>

definition ride0 :: ride where
  "ride0 =
     \<lparr> ride_id = ''R0'', date = 19723, hour = 8, month = 1, quarter = 1, day_of_week = 0,
       is_weekend = False, vehicle_type = ''bike'', weather_condition = ''Clear'',
       weather_main = ''Clear'', weather_description = ''clear sky'', distance_km = 10,
       base_price = 100, final_price = 120, surge_multiplier = 12 / 10,
       waiting_time_minutes = 5 \<rparr>"


text \<open>Two rain rides whose weather descriptions differ.\<close>

definition rain_rides2 :: "ride list" where
  "rain_rides2 =
     [ride0\<lparr>weather_condition := ''Rain'', weather_main := ''Rain'',
        weather_description := ''light rain'', surge_multiplier := 18 / 10\<rparr>,
      ride0\<lparr>ride_id := ''R1'', weather_condition := ''Rain'', weather_main := ''Rain'',
        weather_description := ''moderate rain'', surge_multiplier := 2\<rparr>]"

text \<open>A clear ride followed by the two rain rides.\<close>

definition mixed_rides :: "ride list" where
  "mixed_rides = ride0 # rain_rides2"

text \<open>A ride under a weather condition that none of the lookup tables knows.\<close>

definition fog_rides :: "ride list" where
  "fog_rides =
     [ride0\<lparr>weather_condition := ''Fog'', weather_main := ''Fog'',
        weather_description := ''fog''\<rparr>]"

text \<open>Rides on 2024-01-01 and 2024-01-03, none on the day between.\<close>

definition gap_rides :: "ride list" where
  "gap_rides = [ride0, ride0\<lparr>ride_id := ''R1'', date := 19725, day_of_week := 2\<rparr>]"




section \<open>Facts about the pandas primitives\<close>

lemma foldl_add_sum_list: "foldl (+) a xs = a + sum_list (xs :: real list)"
  by (induction xs arbitrary: a) simp_all

lemma series_sum_eq: "series_sum xs = sum_list xs"
  by (simp add: series_sum_def foldl_add_sum_list)


lemma drop_duplicates_from_set:
  "snd ` set (drop_duplicates_from seen i xs) = set xs - set seen"
  by (induction xs arbitrary: seen i) auto

lemma drop_duplicates_set: "snd ` set (drop_duplicates xs) = set xs"
  by (simp add: drop_duplicates_def drop_duplicates_from_set)

lemma drop_duplicates_from_distinct:
  "distinct (map snd (drop_duplicates_from seen i xs))"
proof (induction xs arbitrary: seen i)
  case Nil
  show ?case by simp
next
  case (Cons x xs)
  have "x \<notin> snd ` set (drop_duplicates_from (x # seen) (Suc i) xs)"
    by (simp add: drop_duplicates_from_set)
  then show ?case using Cons by simp
qed

lemma foldl_min_eq: "foldl min (x :: int) xs = Min (set (x # xs))"
proof (induction xs arbitrary: x)
  case Nil
  show ?case by simp
next
  case (Cons y ys)
  have "foldl min x (y # ys) = Min (set (min x y # ys))" using Cons by simp
  also have "\<dots> = Min (set (x # y # ys))"
    by (cases ys) (simp_all add: min.assoc)
  finally show ?case .
qed

lemma foldl_max_eq: "foldl max (x :: int) xs = Max (set (x # xs))"
proof (induction xs arbitrary: x)
  case Nil
  show ?case by simp
next
  case (Cons y ys)
  have "foldl max x (y # ys) = Max (set (max x y # ys))" using Cons by simp
  also have "\<dots> = Max (set (x # y # ys))"
    by (cases ys) (simp_all add: max.assoc)
  finally show ?case .
qed



section \<open>Properties of the categorisers\<close>

lemma hours_eq:
  "hours = [0, 1, 2, 3, 4, 5, 6, 7, 8, 9, 10, 11, 12, 13, 14, 15, 16, 17, 18, 19, 20, 21, 22, 23]"
  by (simp add: hours_def upt_rec)

section \<open>Facts about the example rides and the builders\<close>


lemma weather_dim_row_unknown:
  assumes "c \<notin> {''Clear'', ''Clouds'', ''Haze'', ''Rain'', ''Thunderstorm''}"
  shows "w_impact_category (weather_dim_row (i, c, m, d)) = ''Unknown'' \<and>
         w_severity_score (weather_dim_row (i, c, m, d)) = 0 \<and>
         w_expected_surge_multiplier (weather_dim_row (i, c, m, d)) = 1"
  using assms
  by (simp add: categorize_weather_impact_def get_weather_severity_def get_expected_surge_def
      dict_get_def severity_map_def surge_map_def isin_def)

lemma weather_dim_row_condition: "w_weather_condition (weather_dim_row t) = fst (snd t)"
  by (cases t) simp

lemma weather_conditions_complete:
  "set (map w_weather_condition (create_weather_dimension df)) = set (map weather_condition df)"
proof -
  have "set (map w_weather_condition (create_weather_dimension df)) =
        fst ` snd ` set (weather_combinations df)"
    by (simp add: create_weather_dimension_def weather_dim_row_condition image_image)
  also have "\<dots> = fst ` set (map (\<lambda>r. (weather_condition r, weather_main r, weather_description r)) df)"
    by (simp only: weather_combinations_def drop_duplicates_set)
  also have "\<dots> = set (map weather_condition df)"
    by (simp add: image_image)
  finally show ?thesis .
qed

lemma fog_dim:
  "create_weather_dimension fog_rides =
     [\<lparr> w_weather_condition = ''Fog'', w_weather_main = ''Fog'', w_weather_description = ''fog'',
        w_weather_id = 1, w_impact_category = ''Unknown'', w_severity_score = 0,
        w_expected_surge_multiplier = 1 \<rparr>]"
  by (simp add: create_weather_dimension_def weather_combinations_def drop_duplicates_def
      fog_rides_def ride0_def categorize_weather_impact_def get_weather_severity_def
      get_expected_surge_def dict_get_def severity_map_def surge_map_def isin_def)

lemma series_min_Some: "df \<noteq> [] \<Longrightarrow> series_min (map date df) = Some (Min (set (map date df)))"
  by (cases df) (simp_all add: foldl_min_eq del: set_map list.set)

lemma series_max_Some: "df \<noteq> [] \<Longrightarrow> series_max (map date df) = Some (Max (set (map date df)))"
  by (cases df) (simp_all add: foldl_max_eq del: set_map list.set)

lemma time_dim_row_date: "map t_date (map (time_dim_row month_of) ds) = ds"
  by (induction ds) (simp_all add: time_dim_row_def)

lemma quick_time_dim_dates: "set (map fst (quick_time_dim df)) = set (map date df)"
proof -
  have "set (map fst (quick_time_dim df)) =
        fst ` snd ` set (drop_duplicates
          (map (\<lambda>r. (date r, month r, quarter r, day_of_week r, is_weekend r)) df))"
    by (simp add: quick_time_dim_def image_image)
  also have "\<dots> = fst ` set (map (\<lambda>r. (date r, month r, quarter r, day_of_week r, is_weekend r)) df)"
    by (simp only: drop_duplicates_set)
  also have "\<dots> = set (map date df)"
    by (simp add: image_image)
  finally show ?thesis .
qed




lemma series_mean_ne: "xs \<noteq> [] \<Longrightarrow> series_mean xs = Finite (sum_list xs / real (length xs))"
  by (simp add: series_mean_def series_sum_eq)

section \<open>Claims\<close>

subsection \<open>C1: rows of the weather dimension\<close>

text \<open>
  C1 asks for one weather-dimension row per distinct weather condition. Both builders
  de-duplicate the triple (condition, main, description) instead of the condition, so two
  rain rides whose descriptions differ give two rows for the single condition \<open>Rain\<close>:
  the builders evaluated at that input.
\<close>

theorem create_weather_dimension_duplicates:
  "length (create_weather_dimension rain_rides2) = 2 \<and>
   length (quick_weather_dim rain_rides2) = 2 \<and>
   card (set (map weather_condition rain_rides2)) = 1 \<and>
   map w_weather_condition (create_weather_dimension rain_rides2) = [''Rain'', ''Rain'']"
  by (simp add: create_weather_dimension_def quick_weather_dim_def weather_combinations_def
      drop_duplicates_def rain_rides2_def ride0_def)

subsection \<open>C2: price per km at distance zero\<close>




subsection \<open>C3: hours outside 0 to 23\<close>

text \<open>
  C3 fails as stated. The categorisers do not reject the hours 24 and -1: both fall through to the last
  branch and are labelled \<open>Night\<close>.
\<close>

theorem get_time_period_out_of_range_counterexample:
  "get_time_period 24 = ''Night'' \<and> get_time_period (- 1) = ''Night'' \<and>
   categorize_time_period 24 = ''Night'' \<and> categorize_time_period (- 1) = ''Night''"
  by (simp add: get_time_period_def categorize_time_period_def)

text \<open>
  C3, as the code has it: for every integer hour outside 0 to 23 the time-period
  categoriser returns the label \<open>Night\<close>; it has no failure.
\<close>

theorem get_time_period_out_of_range:
  assumes "h < 0 \<or> 23 < h"
  shows "get_time_period h = ''Night'' \<and> categorize_time_period h = ''Night''"
proof -
  have same: "categorize_time_period h = get_time_period h"
    by (simp add: categorize_time_period_def get_time_period_def)
  from assms have "get_time_period h = ''Night''"
  proof
    assume "h < 0"
    then show ?thesis by (simp add: get_time_period_def)
  next
    assume "23 < h"
    then show ?thesis by (simp add: get_time_period_def)
  qed
  with same show ?thesis by simp
qed

theorem get_time_period_out_of_range_witness:
  "((25 :: int) < 0 \<or> (23 :: int) < 25) \<and> get_time_period 25 = ''Night'' \<and>
   categorize_time_period 25 = ''Night''"
  using get_time_period_out_of_range [of 25] by simp

subsection \<open>C4: the nine time periods\<close>

text \<open>
  C4: for every hour from 0 to 23 the categoriser returns the label of the one bin of the
  nine-row table of half-open intervals that holds the hour; the bins tile 0 to 24 with
  neither gap nor overlap; the three categorisers of the repository agree; hour 0 is
  \<open>Late Night\<close> and hour 23 is \<open>Night\<close>.
\<close>

theorem get_time_period_bins:
  assumes "0 \<le> h" and "h \<le> 23"
  shows "spec_time_period time_period_bins h = Some (get_time_period h) \<and>
         bins_hit time_period_bins h = 1 \<and>
         contiguous 0 24 time_period_bins \<and>
         get_time_period h \<in> set (map (\<lambda>b. snd (snd b)) time_period_bins) \<and>
         length time_period_bins = 9 \<and>
         categorize_time_period h = get_time_period h \<and>
         quick_time_period h = get_time_period h \<and>
         get_time_period 0 = ''Late Night'' \<and> get_time_period 23 = ''Night''"
proof -
  have 1: "spec_time_period time_period_bins h = Some (get_time_period h)"
    using assms by (simp add: time_period_bins_def get_time_period_def)
  have 2: "bins_hit time_period_bins h = 1"
    using assms by (simp add: time_period_bins_def bins_hit_def)
  have 3: "contiguous 0 24 time_period_bins"
    by (simp add: time_period_bins_def)
  have 4: "get_time_period h \<in> set (map (\<lambda>b. snd (snd b)) time_period_bins)"
    by (simp add: time_period_bins_def get_time_period_def)
  have 5: "length time_period_bins = 9"
    by (simp add: time_period_bins_def)
  have 6: "categorize_time_period h = get_time_period h"
    by (simp add: categorize_time_period_def get_time_period_def)
  have 7: "quick_time_period h = get_time_period h"
    using assms by (simp add: quick_time_period_def get_time_period_def)
  have 8: "get_time_period 0 = ''Late Night'' \<and> get_time_period 23 = ''Night''"
    by (simp add: get_time_period_def)
  from 1 2 3 4 5 6 7 8 show ?thesis by blast
qed

theorem get_time_period_bins_witness:
  "(0 :: int) \<le> 23 \<and> (23 :: int) \<le> 23 \<and>
   spec_time_period time_period_bins 23 = Some ''Night'' \<and>
   bins_hit time_period_bins 23 = 1 \<and> quick_time_period 23 = ''Night''"
  using get_time_period_bins [of 23] by simp

subsection \<open>C5: rows of the time dimension\<close>

text \<open>
  C5 fails as stated for the second of the two builders. The time dimension of
  quick_analysis.py holds the observed dates only: with rides on
  day 19723 and day 19725 it has two rows, while the range from the first to the last
  date has three days.
\<close>

theorem quick_time_dim_counterexample:
  "map fst (quick_time_dim gap_rides) = [19723, 19725] \<and>
   series_min (map date gap_rides) = Some 19723 \<and>
   series_max (map date gap_rides) = Some 19725 \<and>
   date_range 19723 19725 = [19723, 19724, 19725]"
  by (simp add: quick_time_dim_def drop_duplicates_def gap_rides_def ride0_def date_range_def
      upto_rec1)

text \<open>
  C5, as the code has it: for every non-empty collection of rides
  \<open>create_time_dimension\<close> returns one row per calendar day from the earliest to the
  latest ride date, both included, in order and without repetition, so every ride date
  and every day between has its row; the \<open>time_dim\<close> of quick_analysis.py has exactly
  the dates that occur in the rides.
\<close>

theorem create_time_dimension_range:
  assumes "df \<noteq> []"
  shows "\<exists>rows. create_time_dimension month_of df = Inr rows \<and>
           map t_date rows = [Min (set (map date df)) .. Max (set (map date df))] \<and>
           distinct (map t_date rows) \<and>
           set (map t_date rows) = {Min (set (map date df)) .. Max (set (map date df))} \<and>
           set (map date df) \<subseteq> set (map t_date rows) \<and>
           int (length rows) = Max (set (map date df)) - Min (set (map date df)) + 1 \<and>
           set (map fst (quick_time_dim df)) = set (map date df)"
proof -
  let ?lo = "Min (set (map date df))" and ?hi = "Max (set (map date df))"
  let ?rows = "map (time_dim_row month_of) (date_range ?lo ?hi)"
  have ne: "set (map date df) \<noteq> {}" using assms by simp
  have fin: "finite (set (map date df))" by (rule finite_set)
  have "?lo \<in> set (map date df)" using fin ne by (rule Min_in)
  with fin have le: "?lo \<le> ?hi" by (rule Max_ge)
  have run: "create_time_dimension month_of df = Inr ?rows"
    using assms by (simp add: create_time_dimension_def series_min_Some series_max_Some
        del: set_map)
  have dates: "map t_date ?rows = [?lo .. ?hi]"
    by (simp only: time_dim_row_date date_range_def)
  have sub: "set (map date df) \<subseteq> {?lo .. ?hi}"
    using ne by (auto simp del: set_map)
  have len: "int (length ?rows) = ?hi - ?lo + 1"
    using le by (simp add: date_range_def del: set_map)
  show ?thesis
    using run dates sub len quick_time_dim_dates [of df]
    by (intro exI [of _ ?rows]) (simp del: set_map)
qed

theorem create_time_dimension_range_witness:
  "gap_rides \<noteq> [] \<and>
   (\<exists>rows. create_time_dimension (\<lambda>d. 1) gap_rides = Inr rows \<and>
      map t_date rows = [19723, 19724, 19725])"
proof -
  have ne: "gap_rides \<noteq> []" by (simp add: gap_rides_def)
  have lo: "Min (set (map date gap_rides)) = 19723" and hi: "Max (set (map date gap_rides)) = 19725"
    by (simp_all add: gap_rides_def ride0_def)
  from create_time_dimension_range [OF ne, of "\<lambda>d. 1"] lo hi ne show ?thesis
    by (auto simp: upto_rec1)
qed

subsection \<open>C6: the hour dimension\<close>

text \<open>
  C6: the hour dimension has 24 rows, its hour keys are 0 to 23 in order, and the
  rush-hour flag of a row is true exactly when its hour is 8, 9, 17 or 18; the same holds
  for the \<open>hour_dim\<close> of quick_analysis.py.
\<close>

theorem create_hour_dimension_rows:
  "length create_hour_dimension = 24 \<and>
   map h_hour create_hour_dimension = [0 .. 23] \<and>
   map (\<lambda>r. (h_hour r, h_is_rush_hour r)) create_hour_dimension =
     map (\<lambda>h. (h, h \<in> {8, 9, 17, 18})) [0 .. 23] \<and>
   map (\<lambda>(h, p, rush). (h, rush)) quick_hour_dim =
     map (\<lambda>h. (h, h \<in> {8, 9, 17, 18})) [0 .. 23]"
  by (simp add: create_hour_dimension_def quick_hour_dim_def hours_eq hour_dim_row_def
      isin_def upto_rec1)

subsection \<open>C7: revenue totals and surge contribution\<close>



subsection \<open>C8: rain-to-clear surge ratio\<close>

text \<open>
  C8: without a row of weather condition \<open>Clear\<close> the rain-to-clear surge ratio is 0;
  with such a row it is the float quotient of the mean rain surge multiplier and the mean
  clear surge multiplier, which is the quotient of the two arithmetic means when rain
  rows exist as well and the clear mean is not zero.
\<close>

theorem rain_vs_clear_guard:
  "((\<forall>r \<in> set df. weather_condition r \<noteq> ''Clear'') \<longrightarrow>
      rain_vs_clear_multiplier df = Finite 0) \<and>
   ((\<exists>r \<in> set df. weather_condition r = ''Clear'') \<longrightarrow>
      rain_vs_clear_multiplier df =
        fdiv (series_mean (map surge_multiplier (filter (\<lambda>r. weather_condition r = ''Rain'') df)))
             (series_mean (map surge_multiplier (filter (\<lambda>r. weather_condition r = ''Clear'') df)))) \<and>
   ((\<exists>r \<in> set df. weather_condition r = ''Clear'') \<and>
    (\<exists>r \<in> set df. weather_condition r = ''Rain'') \<and>
    (\<Sum>r\<leftarrow>filter (\<lambda>r. weather_condition r = ''Clear'') df. surge_multiplier r) \<noteq> 0 \<longrightarrow>
      rain_vs_clear_multiplier df =
        Finite (((\<Sum>r\<leftarrow>filter (\<lambda>r. weather_condition r = ''Rain'') df. surge_multiplier r)
                  / real (length (filter (\<lambda>r. weather_condition r = ''Rain'') df)))
              / ((\<Sum>r\<leftarrow>filter (\<lambda>r. weather_condition r = ''Clear'') df. surge_multiplier r)
                  / real (length (filter (\<lambda>r. weather_condition r = ''Clear'') df)))))"
proof (intro conjI impI)
  assume "\<forall>r \<in> set df. weather_condition r \<noteq> ''Clear''"
  then have "filter (\<lambda>r. weather_condition r = ''Clear'') df = []"
    by (simp add: filter_empty_conv)
  then show "rain_vs_clear_multiplier df = Finite 0"
    by (simp add: rain_vs_clear_multiplier_def)
next
  assume "\<exists>r \<in> set df. weather_condition r = ''Clear''"
  then have "filter (\<lambda>r. weather_condition r = ''Clear'') df \<noteq> []"
    by (simp add: filter_empty_conv)
  then show "rain_vs_clear_multiplier df =
        fdiv (series_mean (map surge_multiplier (filter (\<lambda>r. weather_condition r = ''Rain'') df)))
             (series_mean (map surge_multiplier (filter (\<lambda>r. weather_condition r = ''Clear'') df)))"
    by (simp add: rain_vs_clear_multiplier_def)
next
  let ?rain = "filter (\<lambda>r. weather_condition r = ''Rain'') df"
  let ?clear = "filter (\<lambda>r. weather_condition r = ''Clear'') df"
  assume h: "(\<exists>r \<in> set df. weather_condition r = ''Clear'') \<and>
    (\<exists>r \<in> set df. weather_condition r = ''Rain'') \<and>
    (\<Sum>r\<leftarrow>?clear. surge_multiplier r) \<noteq> 0"
  then have c: "?clear \<noteq> []" and r: "?rain \<noteq> []"
    by (simp_all add: filter_empty_conv)
  have mc: "series_mean (map surge_multiplier ?clear) =
      Finite ((\<Sum>r\<leftarrow>?clear. surge_multiplier r) / real (length ?clear))"
    using c series_mean_ne [of "map surge_multiplier ?clear"] by simp
  have mr: "series_mean (map surge_multiplier ?rain) =
      Finite ((\<Sum>r\<leftarrow>?rain. surge_multiplier r) / real (length ?rain))"
    using r series_mean_ne [of "map surge_multiplier ?rain"] by simp
  have nz: "(\<Sum>r\<leftarrow>?clear. surge_multiplier r) / real (length ?clear) \<noteq> 0"
    using h c by simp
  show "rain_vs_clear_multiplier df =
        Finite (((\<Sum>r\<leftarrow>?rain. surge_multiplier r) / real (length ?rain))
              / ((\<Sum>r\<leftarrow>?clear. surge_multiplier r) / real (length ?clear)))"
    using c nz unfolding rain_vs_clear_multiplier_def Let_def mc mr by simp
qed

theorem rain_vs_clear_guard_witness:
  "''Clear'' \<notin> set (map weather_condition rain_rides2) \<and>
   rain_vs_clear_multiplier rain_rides2 = Finite 0 \<and>
   ''Clear'' \<in> set (map weather_condition mixed_rides) \<and>
   ''Rain'' \<in> set (map weather_condition mixed_rides) \<and>
   (\<Sum>r\<leftarrow>filter (\<lambda>r. weather_condition r = ''Clear'') mixed_rides. surge_multiplier r) = 12 / 10 \<and>
   rain_vs_clear_multiplier mixed_rides = Finite (19 / 12)"
proof -
  have a: "''Clear'' \<notin> set (map weather_condition rain_rides2)"
    by (simp add: rain_rides2_def ride0_def)
  then have a': "\<forall>r \<in> set rain_rides2. weather_condition r \<noteq> ''Clear''"
    by (auto simp: image_iff)
  have b: "''Clear'' \<in> set (map weather_condition mixed_rides)"
    and c: "''Rain'' \<in> set (map weather_condition mixed_rides)"
    by (simp_all add: mixed_rides_def rain_rides2_def ride0_def)
  then have b': "\<exists>r \<in> set mixed_rides. weather_condition r = ''Clear''"
    and c': "\<exists>r \<in> set mixed_rides. weather_condition r = ''Rain''"
    by (auto simp: image_iff)
  have fc: "filter (\<lambda>r. weather_condition r = ''Clear'') mixed_rides = [ride0]"
    and fr: "filter (\<lambda>r. weather_condition r = ''Rain'') mixed_rides = rain_rides2"
    by (simp_all add: mixed_rides_def rain_rides2_def ride0_def)
  have d: "(\<Sum>r\<leftarrow>filter (\<lambda>r. weather_condition r = ''Clear'') mixed_rides. surge_multiplier r) = 12 / 10"
    unfolding fc by (simp add: ride0_def)
  then have d': "(\<Sum>r\<leftarrow>filter (\<lambda>r. weather_condition r = ''Clear'') mixed_rides. surge_multiplier r) \<noteq> 0"
    by simp
  from rain_vs_clear_guard [of rain_rides2] a'
  have e: "rain_vs_clear_multiplier rain_rides2 = Finite 0" by blast
  from rain_vs_clear_guard [of mixed_rides] b' c' d'
  have "rain_vs_clear_multiplier mixed_rides =
        Finite (((\<Sum>r\<leftarrow>filter (\<lambda>r. weather_condition r = ''Rain'') mixed_rides. surge_multiplier r)
                  / real (length (filter (\<lambda>r. weather_condition r = ''Rain'') mixed_rides)))
              / ((\<Sum>r\<leftarrow>filter (\<lambda>r. weather_condition r = ''Clear'') mixed_rides. surge_multiplier r)
                  / real (length (filter (\<lambda>r. weather_condition r = ''Clear'') mixed_rides))))"
    by blast
  then have f: "rain_vs_clear_multiplier mixed_rides = Finite (19 / 12)"
    unfolding fc fr by (simp add: rain_rides2_def ride0_def)
  from a e b c d f show ?thesis by blast
qed

subsection \<open>C9: boundary hours of the coarse hour category\<close>

text \<open>
  C9: the hour category of a row follows the right-closed bins (-1, 6], (6, 12],
  (12, 18] and (18, 24]; in the hour dimension hour 6 is \<open>Night\<close>, hour 12 is \<open>Morning\<close>
  and hour 18 is \<open>Afternoon\<close>.
\<close>

theorem hour_category_right_closed:
  "h_hour_category (hour_dim_row h) =
     (if - 1 < h \<and> h \<le> 6 then Some ''Night''
      else if 6 < h \<and> h \<le> 12 then Some ''Morning''
      else if 12 < h \<and> h \<le> 18 then Some ''Afternoon''
      else if 18 < h \<and> h \<le> 24 then Some ''Evening''
      else None) \<and>
   map (\<lambda>r. (h_hour r, h_hour_category r))
     (filter (\<lambda>r. isin [6, 12, 18] (h_hour r)) create_hour_dimension) =
     [(6, Some ''Night''), (12, Some ''Morning''), (18, Some ''Afternoon'')]"
  by (simp add: create_hour_dimension_def hours_eq hour_dim_row_def isin_def)

subsection \<open>C10: unrecognised weather conditions\<close>

text \<open>
  C10: every row of the weather dimension whose condition is none of Clear, Clouds,
  Haze, Rain and Thunderstorm has impact category \<open>Unknown\<close>, severity score 0 and
  expected surge multiplier 1.0; the builder has no failure, and the conditions of its
  rows are exactly the conditions of the rides, so each unrecognised condition gets its
  row.
\<close>

theorem create_weather_dimension_unknown:
  "(\<forall>row \<in> set (create_weather_dimension df).
      w_weather_condition row \<notin> {''Clear'', ''Clouds'', ''Haze'', ''Rain'', ''Thunderstorm''} \<longrightarrow>
      w_impact_category row = ''Unknown'' \<and> w_severity_score row = 0 \<and>
      w_expected_surge_multiplier row = 1) \<and>
   set (map w_weather_condition (create_weather_dimension df)) = set (map weather_condition df)"
proof (intro conjI ballI impI)
  fix row
  assume row: "row \<in> set (create_weather_dimension df)"
    and unk: "w_weather_condition row \<notin> {''Clear'', ''Clouds'', ''Haze'', ''Rain'', ''Thunderstorm''}"
  from row obtain i c m d where eq: "row = weather_dim_row (i, c, m, d)"
    by (auto simp: create_weather_dimension_def)
  with unk have "c \<notin> {''Clear'', ''Clouds'', ''Haze'', ''Rain'', ''Thunderstorm''}" by simp
  from weather_dim_row_unknown [OF this, of i m d] eq
  show "w_impact_category row = ''Unknown''" "w_severity_score row = 0"
    "w_expected_surge_multiplier row = 1" by simp_all
next
  show "set (map w_weather_condition (create_weather_dimension df)) = set (map weather_condition df)"
    by (rule weather_conditions_complete)
qed

theorem create_weather_dimension_unknown_witness:
  "hd (create_weather_dimension fog_rides) \<in> set (create_weather_dimension fog_rides) \<and>
   w_weather_condition (hd (create_weather_dimension fog_rides))
     \<notin> {''Clear'', ''Clouds'', ''Haze'', ''Rain'', ''Thunderstorm''} \<and>
   w_impact_category (hd (create_weather_dimension fog_rides)) = ''Unknown'' \<and>
   w_severity_score (hd (create_weather_dimension fog_rides)) = 0 \<and>
   w_expected_surge_multiplier (hd (create_weather_dimension fog_rides)) = 1"
proof -
  have mem: "hd (create_weather_dimension fog_rides) \<in> set (create_weather_dimension fog_rides)"
    by (simp add: fog_dim)
  have unk: "w_weather_condition (hd (create_weather_dimension fog_rides))
     \<notin> {''Clear'', ''Clouds'', ''Haze'', ''Rain'', ''Thunderstorm''}"
    by (simp add: fog_dim)
  from create_weather_dimension_unknown [of fog_rides] mem unk show ?thesis by blast
qed

end
